theory Spec2Isabelle
  imports Main "HOL-Library.Word"
begin

section \<open>The disk-image signing script \<open>gpt4all-chat/cmake/sign_dmg.py\<close>\<close>

text \<open>
  The script is one procedure, \<open>sign_dmg\<close>, that drives three command-line tools
  (\<open>hdiutil\<close>, \<open>codesign\<close>, \<open>spctl\<close>) and a few filesystem calls. The model runs
  the procedure against an explicit environment and returns the list of effects it
  performed, in order, together with the way the process ended.

  What the operating system answers is a parameter: the two fresh directory names
  \<open>tempfile.mkdtemp\<close> returns, the listing \<open>os.listdir\<close> returns, and the exit status
  and standard output of every tool invocation. The filesystem calls
  (\<open>mkdtemp\<close>, \<open>copytree\<close>, \<open>listdir\<close>, \<open>rmtree\<close>) are taken to succeed and every tool
  is taken to be launchable; what the script does with a tool's exit status and
  output is modelled in full, with every \<open>exit\<close>, every \<open>raise\<close> and every exception
  the script's own arguments provoke as a branch.
\<close>

subsection \<open>Python values, exceptions, effects\<close>

type_synonym bytes = "8 word list"

datatype pyval = PyNone | PyStr string | PyBytes bytes

datatype exc =
    CalledProcessError "string list" int
  | TypeError
  | ReError
  | RuntimeError string pyval

text \<open>
  \<open>Print s\<close> is \<open>print(s)\<close>; \<open>PrintExc s e\<close> is \<open>print(f"s{e}")\<close>, the text \<open>s\<close>
  followed by the formatted exception.
\<close>

datatype event =
    Print string
  | PrintExc string exc
  | Mkdtemp string
  | Run "string list"
  | Copytree string string
  | Listdir string
  | Rmtree string

text \<open>
  The procedure returns, leaves through \<open>exit(n)\<close>, or is left by an exception
  nobody catches (the interpreter then prints a traceback and exits with status 1).
\<close>

datatype outcome = Returned | SysExit int | Uncaught exc

fun exit_status :: "outcome \<Rightarrow> int" where
  "exit_status Returned = 0"
| "exit_status (SysExit n) = n"
| "exit_status (Uncaught e) = 1"

type_synonym run = "event list \<times> outcome"

definition trace :: "run \<Rightarrow> event list" where
  "trace r = fst r"

definition result :: "run \<Rightarrow> outcome" where
  "result r = snd r"

text \<open>\<open>emit evs r\<close>: the effects \<open>evs\<close> happen, then the run continues as \<open>r\<close>.\<close>

definition emit :: "event list \<Rightarrow> run \<Rightarrow> run" where
  "emit evs r = (evs @ fst r, snd r)"

subsection \<open>The environment and the command line\<close>

record tool_result =
  exit_code :: int
  stdout_bytes :: bytes

text \<open>
  Python's regular-expression engine is not modelled: which patterns compile
  (\<open>re_compiles\<close>) and what a compiled pattern finds in a \<open>str\<close> (\<open>re_matches\<close>) are
  parameters.
\<close>

record env =
  mkdtemp_1st :: string
  mkdtemp_2nd :: string
  listdir :: "string \<Rightarrow> string list"
  tool :: "string list \<Rightarrow> tool_result"
  re_compiles :: "string \<Rightarrow> bool"
  re_matches :: "string \<Rightarrow> string \<Rightarrow> bool"

record args =
  input_dmg :: string
  output_dmg :: string
  signing_identity :: "string option"
  sha1_hash :: "string option"
  verify :: bool

subsection \<open>Library functions the script calls\<close>

text \<open>Truth value of an \<open>Optional[str]\<close>: \<open>None\<close> and the empty string are false.\<close>

fun truthy :: "string option \<Rightarrow> bool" where
  "truthy None = False"
| "truthy (Some s) = (s \<noteq> [])"

text \<open>\<open>a or b\<close> on two \<open>Optional[str]\<close>.\<close>

definition py_or :: "string option \<Rightarrow> string option \<Rightarrow> string option" where
  "py_or a b = (if truthy a then a else b)"

definition startswith :: "string \<Rightarrow> string \<Rightarrow> bool" where
  "startswith s p = (take (length p) s = p)"

definition endswith :: "string \<Rightarrow> string \<Rightarrow> bool" where
  "endswith s p = (length p \<le> length s \<and> drop (length s - length p) s = p)"

text \<open>\<open>posixpath.join(a, *p)\<close>.\<close>

definition join_step :: "string \<Rightarrow> string \<Rightarrow> string" where
  "join_step path b =
     (if startswith b ''/'' then b
      else if path = [] \<or> endswith path ''/'' then path @ b
      else path @ ''/'' @ b)"

definition path_join :: "string \<Rightarrow> string list \<Rightarrow> string" where
  "path_join a p = foldl join_step a p"

text \<open>\<open>s.rfind(c)\<close> for a one-character \<open>c\<close>: the last index of \<open>c\<close>, or \<open>-1\<close>.\<close>

definition rfind :: "string \<Rightarrow> char \<Rightarrow> int" where
  "rfind s c =
     (if c \<in> set s
      then int (length s) - 1 - int (length (takeWhile (\<lambda>x. x \<noteq> c) (rev s)))
      else - 1)"

text \<open>\<open>posixpath.basename(p)\<close>: \<open>i = p.rfind('/') + 1; return p[i:]\<close>.\<close>

definition basename :: "string \<Rightarrow> string" where
  "basename p = drop (nat (rfind p CHR ''/'' + 1)) p"

text \<open>
  \<open>posixpath.splitext(p)\<close>. The library's loop walks from the start of the file
  name to the last dot and splits there as soon as it meets a character that is not a
  dot; \<open>has_non_dot\<close> is that loop over the slice \<open>p[sepIndex+1:dotIndex]\<close>.
\<close>

fun has_non_dot :: "string \<Rightarrow> bool" where
  "has_non_dot [] = False"
| "has_non_dot (c # cs) = (if c \<noteq> CHR ''.'' then True else has_non_dot cs)"

definition splitext :: "string \<Rightarrow> string \<times> string" where
  "splitext p =
     (let sepIndex = rfind p CHR ''/'';
          dotIndex = rfind p CHR ''.''
      in if dotIndex > sepIndex \<and>
            has_non_dot (take (nat dotIndex - nat (sepIndex + 1)) (drop (nat (sepIndex + 1)) p))
         then (take (nat dotIndex) p, drop (nat dotIndex) p)
         else (p, []))"

text \<open>
  \<open>subprocess.run(argv, check=..., capture_output=...)\<close>: the tool runs to
  completion; with \<open>check\<close> a non-zero exit status raises \<open>CalledProcessError\<close>;
  \<open>stdout\<close> of the result is the captured \<open>bytes\<close> with \<open>capture_output\<close> (no text
  mode is requested anywhere in the script) and \<open>None\<close> without.
\<close>

record completed_process =
  returncode :: int
  stdout :: pyval

definition subprocess_run ::
  "(string list \<Rightarrow> tool_result) \<Rightarrow> string list \<Rightarrow> bool \<Rightarrow> bool \<Rightarrow> exc + completed_process" where
  "subprocess_run os argv check capture_output =
     (let r = os argv
      in if check \<and> exit_code r \<noteq> 0 then Inl (CalledProcessError argv (exit_code r))
         else Inr \<lparr>returncode = exit_code r,
                   stdout = (if capture_output then PyBytes (stdout_bytes r) else PyNone)\<rparr>)"

text \<open>
  \<open>re.search(pattern, string)\<close> with a \<open>str\<close> pattern: the pattern is compiled first
  (\<open>re.error\<close> when it does not compile); a compiled \<open>str\<close> pattern searches a \<open>str\<close>
  only, and raises \<open>TypeError\<close> on \<open>bytes\<close> and on \<open>None\<close>. The result is whether a
  match was found.
\<close>

definition re_search :: "env \<Rightarrow> string \<Rightarrow> pyval \<Rightarrow> exc + bool" where
  "re_search e pattern subject =
     (if \<not> re_compiles e pattern then Inl ReError
      else case subject of
             PyStr s \<Rightarrow> Inr (re_matches e pattern s)
           | PyBytes b \<Rightarrow> Inl TypeError
           | PyNone \<Rightarrow> Inl TypeError)"

subsection \<open>The procedure \<open>sign_dmg\<close>\<close>

text \<open>Lines 40--44: the loop over the directory listing, left at the first match.\<close>

fun find_app_bundle :: "string \<Rightarrow> string list \<Rightarrow> string option" where
  "find_app_bundle temp_dir [] = None"
| "find_app_bundle temp_dir (item # items) =
     (if endswith item ''.app'' then Some (path_join temp_dir [''contents'', item])
      else find_app_bundle temp_dir items)"

definition attach_argv :: "string \<Rightarrow> string \<Rightarrow> string list" where
  "attach_argv input mount_point = [''hdiutil'', ''attach'', input, ''-mountpoint'', mount_point]"

definition detach_argv :: "string \<Rightarrow> string list" where
  "detach_argv mount_point = [''hdiutil'', ''detach'', mount_point]"

definition sign_argv :: "string \<Rightarrow> string \<Rightarrow> string list" where
  "sign_argv ident app_bundle =
     [''codesign'', ''--deep'', ''--force'', ''--verbose'', ''--options'', ''runtime'',
      ''--timestamp'', ''--sign'', ident, app_bundle]"

definition verify_argv :: "string \<Rightarrow> string list" where
  "verify_argv app_bundle =
     [''codesign'', ''--deep'', ''--verify'', ''--verbose=2'', ''--strict'', app_bundle]"

definition spctl_argv :: "string \<Rightarrow> string list" where
  "spctl_argv app_bundle = [''spctl'', ''-a'', ''-t'', ''exec'', ''-vv'', app_bundle]"

definition create_argv :: "string \<Rightarrow> string \<Rightarrow> string \<Rightarrow> string list" where
  "create_argv input temp_dir out =
     [''hdiutil'', ''create'',
      ''-volname'', fst (splitext (basename input)),
      ''-srcfolder'', path_join temp_dir [''contents''],
      ''-ov'',
      ''-format'', ''UDZO'',
      out]"

text \<open>Lines 106--118: repackage, then remove both temporary directories.\<close>

definition repackage :: "env \<Rightarrow> args \<Rightarrow> string \<Rightarrow> string \<Rightarrow> run" where
  "repackage e a temp_dir mount_point =
     (case subprocess_run (tool e) (create_argv (input_dmg a) temp_dir (output_dmg a)) False False of
        Inl x \<Rightarrow> ([Run (create_argv (input_dmg a) temp_dir (output_dmg a))], Uncaught x)
      | Inr p \<Rightarrow>
          ([Run (create_argv (input_dmg a) temp_dir (output_dmg a)),
            Rmtree temp_dir, Rmtree mount_point], Returned))"

text \<open>
  The body of either \<open>try\<close> block of the verification (lines 72--81 and 89--98): run
  the tool with \<open>check=True, capture_output=True\<close>, search its \<open>stdout\<close> for the
  pattern, raise \<open>RuntimeError\<close> when nothing is found.
\<close>

definition try_validate :: "env \<Rightarrow> string list \<Rightarrow> string \<Rightarrow> string \<Rightarrow> exc + unit" where
  "try_validate e argv pattern msg =
     (case subprocess_run (tool e) argv True True of
        Inl x \<Rightarrow> Inl x
      | Inr p \<Rightarrow>
          (case re_search e pattern (stdout p) of
             Inl x \<Rightarrow> Inl x
           | Inr found \<Rightarrow> if \<not> found then Inl (RuntimeError msg (stdout p)) else Inr ()))"

text \<open>
  \<open>except subprocess.CalledProcessError as e\<close> (lines 82--87 and 99--104): print,
  remove both directories, \<open>exit(1)\<close>. Any other exception leaves the procedure.
\<close>

definition except_called_process_error ::
  "exc + unit \<Rightarrow> string \<Rightarrow> string \<Rightarrow> string \<Rightarrow> run \<Rightarrow> run" where
  "except_called_process_error body msg temp_dir mount_point continue =
     (case body of
        Inl (CalledProcessError c r) \<Rightarrow>
          ([PrintExc msg (CalledProcessError c r), Rmtree temp_dir, Rmtree mount_point], SysExit 1)
      | Inl x \<Rightarrow> ([], Uncaught x)
      | Inr u \<Rightarrow> continue)"

text \<open>Lines 88--104: the policy check.\<close>

definition validate_spctl :: "env \<Rightarrow> args \<Rightarrow> string \<Rightarrow> string \<Rightarrow> string \<Rightarrow> run" where
  "validate_spctl e a app_bundle temp_dir mount_point =
     emit [Run (spctl_argv app_bundle)]
       (except_called_process_error
          (try_validate e (spctl_argv app_bundle) (app_bundle @ '': accepted'')
             ''spctl validation failed: '')
          ''Error during spctl validation: '' temp_dir mount_point
          (repackage e a temp_dir mount_point))"

text \<open>Lines 70--87: the signature check, under \<open>if verify\<close>.\<close>

definition validate :: "env \<Rightarrow> args \<Rightarrow> string \<Rightarrow> string \<Rightarrow> string \<Rightarrow> run" where
  "validate e a app_bundle temp_dir mount_point =
     (if verify a then
        emit [Run (verify_argv app_bundle)]
          (except_called_process_error
             (try_validate e (verify_argv app_bundle) (app_bundle @ '': valid'')
                ''codesign validation failed: '')
             ''Error during codesign validation: '' temp_dir mount_point
             (validate_spctl e a app_bundle temp_dir mount_point))
      else repackage e a temp_dir mount_point)"

text \<open>
  Lines 50--67: sign the bundle. \<open>sha1_hash or signing_identity\<close> is a string here,
  since one of the two is true; were it \<open>None\<close>, building the command line would raise
  \<open>TypeError\<close>.
\<close>

definition sign :: "env \<Rightarrow> args \<Rightarrow> string \<Rightarrow> string \<Rightarrow> string \<Rightarrow> run" where
  "sign e a app_bundle temp_dir mount_point =
     (case py_or (sha1_hash a) (signing_identity a) of
        None \<Rightarrow> ([], Uncaught TypeError)
      | Some ident \<Rightarrow>
          emit [Run (sign_argv ident app_bundle)]
            (case subprocess_run (tool e) (sign_argv ident app_bundle) True False of
               Inl (CalledProcessError c r) \<Rightarrow>
                 ([PrintExc ''Error during codesign: '' (CalledProcessError c r),
                   Rmtree temp_dir, Rmtree mount_point], SysExit 1)
             | Inl x \<Rightarrow> ([], Uncaught x)
             | Inr p \<Rightarrow> validate e a app_bundle temp_dir mount_point))"

text \<open>
  Lines 30--48: mount, copy, detach, look for the bundle. \<open>not app_bundle\<close> holds
  for \<open>None\<close> and for the empty string.
\<close>

definition mount_and_locate :: "env \<Rightarrow> args \<Rightarrow> run" where
  "mount_and_locate e a =
     (let mount_point = mkdtemp_1st e;
          temp_dir = mkdtemp_2nd e;
          contents = path_join temp_dir [''contents'']
      in emit [Mkdtemp mount_point,
               Run (attach_argv (input_dmg a) mount_point),
               Mkdtemp temp_dir,
               Copytree mount_point contents,
               Run (detach_argv mount_point),
               Listdir contents]
           (case find_app_bundle temp_dir (listdir e contents) of
              None \<Rightarrow> ([Print ''No .app bundle found in the DMG.''], SysExit 1)
            | Some app_bundle \<Rightarrow>
                if app_bundle = [] then
                  ([Print ''No .app bundle found in the DMG.''], SysExit 1)
                else sign e a app_bundle temp_dir mount_point))"

text \<open>Lines 25--28: the whole procedure.\<close>

definition sign_dmg :: "env \<Rightarrow> args \<Rightarrow> run" where
  "sign_dmg e a =
     (if \<not> truthy (signing_identity a) \<and> \<not> truthy (sha1_hash a) then
        ([Print ''Error: Either --signing-identity or --sha1-hash must be provided.''], SysExit 1)
      else mount_and_locate e a)"

subsection \<open>Reading a run\<close>

text \<open>
  The six effects every run performs once an identity is given (lines 30--41): make
  the mount point, attach, make the working directory, copy, detach, list.
\<close>

definition setup_events :: "env \<Rightarrow> args \<Rightarrow> event list" where
  "setup_events e a =
     [Mkdtemp (mkdtemp_1st e),
      Run (attach_argv (input_dmg a) (mkdtemp_1st e)),
      Mkdtemp (mkdtemp_2nd e),
      Copytree (mkdtemp_1st e) (path_join (mkdtemp_2nd e) [''contents'']),
      Run (detach_argv (mkdtemp_1st e)),
      Listdir (path_join (mkdtemp_2nd e) [''contents''])]"

fun run_argv :: "event \<Rightarrow> string list option" where
  "run_argv (Run argv) = Some argv"
| "run_argv ev = None"

text \<open>The command lines of the tools a run invoked, in order.\<close>

definition tool_calls :: "event list \<Rightarrow> string list list" where
  "tool_calls tr = List.map_filter run_argv tr"

text \<open>An output image is written by \<open>hdiutil create\<close> and by nothing else in the script.\<close>

definition creates_image :: "event list \<Rightarrow> bool" where
  "creates_image tr = list_ex (\<lambda>argv. take 2 argv = [''hdiutil'', ''create'']) (tool_calls tr)"

definition assesses_policy :: "event list \<Rightarrow> bool" where
  "assesses_policy tr = list_ex (\<lambda>argv. take 1 argv = [''spctl'']) (tool_calls tr)"

definition removes :: "event list \<Rightarrow> string \<Rightarrow> bool" where
  "removes tr d = (Rmtree d \<in> set tr)"

subsection \<open>Concrete environments\<close>

text \<open>
  An environment with fixed temporary names, a given listing of the copied contents
  and a given exit status for every command line; no tool prints anything.
\<close>

definition demo_env :: "string list \<Rightarrow> (string list \<Rightarrow> int) \<Rightarrow> env" where
  "demo_env listing rc =
     \<lparr>mkdtemp_1st = ''/tmp/tmpmnt'',
      mkdtemp_2nd = ''/tmp/tmpwork'',
      listdir = (\<lambda>p. if p = ''/tmp/tmpwork/contents'' then listing else []),
      tool = (\<lambda>argv. \<lparr>exit_code = rc argv, stdout_bytes = []\<rparr>),
      re_compiles = (\<lambda>p. True),
      re_matches = (\<lambda>p s. False)\<rparr>"

definition demo_args :: "string option \<Rightarrow> string option \<Rightarrow> bool \<Rightarrow> args" where
  "demo_args sha ident v =
     \<lparr>input_dmg = ''/path/to/input.dmg'',
      output_dmg = ''/path/to/output.dmg'',
      signing_identity = ident,
      sha1_hash = sha,
      verify = v\<rparr>"

text \<open>Exit statuses under which exactly the signing invocation fails.\<close>

definition rc_sign_fails :: "string list \<Rightarrow> int" where
  "rc_sign_fails argv = (if take 3 argv = [''codesign'', ''--deep'', ''--force''] then 1 else 0)"

text \<open>Exit statuses under which every \<open>hdiutil\<close> invocation fails and nothing else does.\<close>

definition hdiutil_fails :: "string list \<Rightarrow> int" where
  "hdiutil_fails argv = (if take 1 argv = [''hdiutil''] then 1 else 0)"

section \<open>What each stage does\<close>

lemma tool_calls_simps [simp]:
  "tool_calls [] = []"
  "tool_calls (Run argv # tr) = argv # tool_calls tr"
  "tool_calls (Print s # tr) = tool_calls tr"
  "tool_calls (PrintExc s x # tr) = tool_calls tr"
  "tool_calls (Mkdtemp d # tr) = tool_calls tr"
  "tool_calls (Copytree d d' # tr) = tool_calls tr"
  "tool_calls (Listdir d # tr) = tool_calls tr"
  "tool_calls (Rmtree d # tr) = tool_calls tr"
  by (simp_all add: tool_calls_def)

lemma tool_calls_append [simp]: "tool_calls (xs @ ys) = tool_calls xs @ tool_calls ys"
  by (simp add: tool_calls_def map_filter_def)

lemma subprocess_run_unchecked:
  "subprocess_run os argv False c =
     Inr \<lparr>returncode = exit_code (os argv),
          stdout = (if c then PyBytes (stdout_bytes (os argv)) else PyNone)\<rparr>"
  by (simp add: subprocess_run_def Let_def)

lemma subprocess_run_checked:
  "subprocess_run os argv True c =
     (if exit_code (os argv) \<noteq> 0 then Inl (CalledProcessError argv (exit_code (os argv)))
      else Inr \<lparr>returncode = 0,
          stdout = (if c then PyBytes (stdout_bytes (os argv)) else PyNone)\<rparr>)"
  by (simp add: subprocess_run_def Let_def)

text \<open>A \<open>str\<close> pattern never searches captured \<open>bytes\<close>: the call always raises.\<close>

lemma re_search_bytes:
  "re_search e pat (PyBytes b) = Inl (if re_compiles e pat then TypeError else ReError)"
  by (simp add: re_search_def)

lemma try_validate_run:
  "try_validate e argv pat msg =
     Inl (if exit_code (tool e argv) \<noteq> 0 then CalledProcessError argv (exit_code (tool e argv))
          else if re_compiles e pat then TypeError else ReError)"
  by (simp add: try_validate_def subprocess_run_checked re_search_bytes)

lemma repackage_run:
  "repackage e a td mp =
     ([Run (create_argv (input_dmg a) td (output_dmg a)), Rmtree td, Rmtree mp], Returned)"
  by (simp add: repackage_def subprocess_run_unchecked)

lemma validate_run:
  "validate e a b td mp =
     (if verify a then
        (if exit_code (tool e (verify_argv b)) \<noteq> 0 then
           ([Run (verify_argv b),
             PrintExc ''Error during codesign validation: ''
               (CalledProcessError (verify_argv b) (exit_code (tool e (verify_argv b)))),
             Rmtree td, Rmtree mp], SysExit 1)
         else ([Run (verify_argv b)],
               Uncaught (if re_compiles e (b @ '': valid'') then TypeError else ReError)))
      else ([Run (create_argv (input_dmg a) td (output_dmg a)), Rmtree td, Rmtree mp], Returned))"
  by (simp add: validate_def try_validate_run except_called_process_error_def emit_def
      repackage_run)

lemma sign_run:
  assumes "py_or (sha1_hash a) (signing_identity a) = Some ident"
  shows "sign e a b td mp =
     (if exit_code (tool e (sign_argv ident b)) \<noteq> 0 then
        ([Run (sign_argv ident b),
          PrintExc ''Error during codesign: ''
            (CalledProcessError (sign_argv ident b) (exit_code (tool e (sign_argv ident b)))),
          Rmtree td, Rmtree mp], SysExit 1)
      else emit [Run (sign_argv ident b)] (validate e a b td mp))"
  using assms by (simp add: sign_def subprocess_run_checked emit_def)

lemma join_step_nonempty: "b \<noteq> [] \<Longrightarrow> join_step p b \<noteq> []"
  by (simp add: join_step_def)

lemma endswith_nonempty: "endswith s p \<Longrightarrow> p \<noteq> [] \<Longrightarrow> s \<noteq> []"
  by (auto simp: endswith_def)

lemma app_bundle_nonempty:
  "endswith item ''.app'' \<Longrightarrow> path_join td [''contents'', item] \<noteq> []"
  using endswith_nonempty [of item "''.app''"] by (simp add: path_join_def join_step_nonempty)

lemma find_app_bundle_truthy: "find_app_bundle td xs = Some b \<Longrightarrow> b \<noteq> []"
  by (induction xs) (auto simp: app_bundle_nonempty split: if_splits)

lemma find_app_bundle_find:
  "find_app_bundle td xs =
     map_option (\<lambda>item. path_join td [''contents'', item])
       (find (\<lambda>item. endswith item ''.app'') xs)"
  by (induction xs) simp_all

lemma mount_and_locate_run:
  "mount_and_locate e a =
     emit (setup_events e a)
       (case find_app_bundle (mkdtemp_2nd e)
               (listdir e (path_join (mkdtemp_2nd e) [''contents''])) of
          None \<Rightarrow> ([Print ''No .app bundle found in the DMG.''], SysExit 1)
        | Some b \<Rightarrow> sign e a b (mkdtemp_2nd e) (mkdtemp_1st e))"
  by (auto simp: mount_and_locate_def setup_events_def Let_def
      dest: find_app_bundle_truthy split: option.splits)

lemma sign_dmg_with_identity:
  assumes "py_or (sha1_hash a) (signing_identity a) = Some ident" and "ident \<noteq> []"
  shows "sign_dmg e a = mount_and_locate e a"
  using assms by (cases "sha1_hash a"; cases "signing_identity a")
    (auto simp: sign_dmg_def py_or_def split: if_splits)

lemma sign_dmg_signing:
  assumes "py_or (sha1_hash a) (signing_identity a) = Some ident" and "ident \<noteq> []"
    and "find_app_bundle (mkdtemp_2nd e)
           (listdir e (path_join (mkdtemp_2nd e) [''contents''])) = Some b"
  shows "sign_dmg e a =
     (if exit_code (tool e (sign_argv ident b)) \<noteq> 0 then
        (setup_events e a @
         [Run (sign_argv ident b),
          PrintExc ''Error during codesign: ''
            (CalledProcessError (sign_argv ident b) (exit_code (tool e (sign_argv ident b)))),
          Rmtree (mkdtemp_2nd e), Rmtree (mkdtemp_1st e)], SysExit 1)
      else emit (setup_events e a @ [Run (sign_argv ident b)])
             (validate e a b (mkdtemp_2nd e) (mkdtemp_1st e)))"
  using assms
  by (simp add: sign_dmg_with_identity [OF assms(1,2)] mount_and_locate_run
      sign_run [OF assms(1)] emit_def)

lemma sign_dmg_tool_calls:
  assumes "py_or (sha1_hash a) (signing_identity a) = Some ident" and "ident \<noteq> []"
    and "find_app_bundle (mkdtemp_2nd e)
           (listdir e (path_join (mkdtemp_2nd e) [''contents''])) = Some b"
  shows "tool_calls (trace (sign_dmg e a)) =
     [attach_argv (input_dmg a) (mkdtemp_1st e), detach_argv (mkdtemp_1st e), sign_argv ident b] @
     (if exit_code (tool e (sign_argv ident b)) \<noteq> 0 then []
      else if verify a then [verify_argv b]
      else [create_argv (input_dmg a) (mkdtemp_2nd e) (output_dmg a)])"
  by (simp add: sign_dmg_signing [OF assms] validate_run emit_def trace_def setup_events_def)

lemma sign_argv_inject: "sign_argv i b = sign_argv i' b' \<longleftrightarrow> i = i' \<and> b = b'"
  by (simp add: sign_argv_def)

lemma sign_argv_distinct:
  "sign_argv i b \<noteq> attach_argv x y" "sign_argv i b \<noteq> detach_argv y"
  "sign_argv i b \<noteq> verify_argv z" "sign_argv i b \<noteq> create_argv u v w"
  by (simp_all add: sign_argv_def attach_argv_def detach_argv_def verify_argv_def create_argv_def)

lemma rfind_absent: "c \<notin> set s \<Longrightarrow> rfind s c = - 1"
  by (simp add: rfind_def)

lemma takeWhile_upto_last:
  "c \<notin> set t \<Longrightarrow> takeWhile (\<lambda>x. x \<noteq> c) (rev t @ c # r) = rev t"
  by (induction t rule: rev_induct) auto

lemma rfind_last: "c \<notin> set t \<Longrightarrow> rfind (s @ c # t) c = int (length s)"
  by (simp add: rfind_def takeWhile_upto_last)

lemma basename_after_dir:
  assumes "CHR ''/'' \<notin> set name" and "pre = [] \<or> last pre = CHR ''/''"
  shows "basename (pre @ name) = name"
proof (cases "pre = []")
  case True
  then show ?thesis using assms(1) by (simp add: basename_def rfind_absent)
next
  case False
  with assms(2) obtain d where pre: "pre = d @ [CHR ''/'']"
    by (metis append_butlast_last_id)
  have "nat (int (length d) + 1) = Suc (length d)" by simp
  then show ?thesis using assms(1) by (simp add: pre basename_def rfind_last)
qed

lemma splitext_name:
  assumes "CHR ''/'' \<notin> set stem" and "CHR ''/'' \<notin> set ext" and "CHR ''.'' \<notin> set ext"
    and "has_non_dot stem"
  shows "splitext (stem @ CHR ''.'' # ext) = (stem, CHR ''.'' # ext)"
proof -
  have sep: "rfind (stem @ CHR ''.'' # ext) CHR ''/'' = - 1"
    using assms(1,2) by (simp add: rfind_absent)
  have dot: "rfind (stem @ CHR ''.'' # ext) CHR ''.'' = int (length stem)"
    using assms(3) by (rule rfind_last)
  show ?thesis
    unfolding splitext_def sep dot using assms(4) by (simp add: Let_def)
qed

lemma volname_is_stem:
  assumes "p = pre @ stem @ CHR ''.'' # ext"
    and "pre = [] \<or> last pre = CHR ''/''"
    and "CHR ''/'' \<notin> set stem" and "CHR ''/'' \<notin> set ext" and "CHR ''.'' \<notin> set ext"
    and "has_non_dot stem"
  shows "fst (splitext (basename p)) = stem"
proof -
  have "basename p = stem @ CHR ''.'' # ext"
    unfolding assms(1) using assms(3,4) by (intro basename_after_dir assms(2)) simp
  then show ?thesis by (simp add: splitext_name assms)
qed

lemma find_app_bundle_first:
  assumes "\<forall>x \<in> set xs. \<not> endswith x ''.app''" and "endswith item ''.app''"
  shows "find_app_bundle td (xs @ item # ys) = Some (path_join td [''contents'', item])"
  using assms by (induction xs) simp_all

lemma sign_dmg_listdir_once:
  assumes "py_or (sha1_hash a) (signing_identity a) = Some ident" and "ident \<noteq> []"
    and "find_app_bundle (mkdtemp_2nd e)
           (listdir e (path_join (mkdtemp_2nd e) [''contents''])) = Some b"
    and "Listdir p \<in> set (trace (sign_dmg e a))"
  shows "p = path_join (mkdtemp_2nd e) [''contents'']"
  using assms(4)
  by (simp add: sign_dmg_signing [OF assms(1-3)] validate_run emit_def trace_def setup_events_def
      split: if_splits)

lemma sign_dmg_starts_with_setup:
  assumes "truthy (sha1_hash a) \<or> truthy (signing_identity a)"
  shows "take 6 (trace (sign_dmg e a)) = setup_events e a"
proof -
  have "sign_dmg e a = mount_and_locate e a"
    using assms by (auto simp: sign_dmg_def)
  moreover have "length (setup_events e a) = 6"
    by (simp add: setup_events_def)
  ultimately show ?thesis
    by (simp add: mount_and_locate_run emit_def trace_def)
qed

section \<open>The claims\<close>

text \<open>
  C4. If neither a certificate fingerprint nor a signing-identity common name is
  provided (each is absent or empty), the program prints the usage error and exits
  with status 1; the usage message is the only effect of the run, so no external tool
  has been invoked and no temporary directory has been created.
\<close>

theorem missing_identity_usage_error:
  assumes "\<not> truthy (sha1_hash a)" and "\<not> truthy (signing_identity a)"
  shows "trace (sign_dmg e a) =
           [Print ''Error: Either --signing-identity or --sha1-hash must be provided.'']
         \<and> result (sign_dmg e a) = SysExit 1
         \<and> exit_status (result (sign_dmg e a)) \<noteq> 0
         \<and> tool_calls (trace (sign_dmg e a)) = []
         \<and> (\<forall>d. Mkdtemp d \<notin> set (trace (sign_dmg e a)))"
  using assms by (simp add: sign_dmg_def trace_def result_def)

theorem missing_identity_usage_error_witness:
  "\<not> truthy (sha1_hash (demo_args None (Some []) True))
   \<and> \<not> truthy (signing_identity (demo_args None (Some []) True))
   \<and> trace (sign_dmg (demo_env [''gpt4all.app''] (\<lambda>argv. 0)) (demo_args None (Some []) True)) =
       [Print ''Error: Either --signing-identity or --sha1-hash must be provided.'']
   \<and> exit_status (result (sign_dmg (demo_env [''gpt4all.app''] (\<lambda>argv. 0))
        (demo_args None (Some []) True))) = 1"
  using missing_identity_usage_error
    [of "demo_args None (Some []) True" "demo_env [''gpt4all.app''] (\<lambda>argv. 0)"]
  by (simp add: demo_args_def)

text \<open>
  C5. If the signing tool exits non-zero (in a run that reaches it: an identity is
  given and a bundle is found), the \<open>CalledProcessError\<close> is caught and printed, the
  working directory and the mount point are both removed, \<open>hdiutil create\<close> is never
  invoked, and the process exits with status 1.
\<close>

theorem signing_failure_cleans_up:
  assumes "py_or (sha1_hash a) (signing_identity a) = Some ident" and "ident \<noteq> []"
    and "find_app_bundle (mkdtemp_2nd e)
           (listdir e (path_join (mkdtemp_2nd e) [''contents''])) = Some b"
    and "exit_code (tool e (sign_argv ident b)) \<noteq> 0"
  shows "sign_dmg e a =
           (setup_events e a @
            [Run (sign_argv ident b),
             PrintExc ''Error during codesign: ''
               (CalledProcessError (sign_argv ident b) (exit_code (tool e (sign_argv ident b)))),
             Rmtree (mkdtemp_2nd e), Rmtree (mkdtemp_1st e)], SysExit 1)
         \<and> removes (trace (sign_dmg e a)) (mkdtemp_2nd e)
         \<and> removes (trace (sign_dmg e a)) (mkdtemp_1st e)
         \<and> \<not> creates_image (trace (sign_dmg e a))
         \<and> exit_status (result (sign_dmg e a)) \<noteq> 0"
proof -
  have run: "sign_dmg e a =
           (setup_events e a @
            [Run (sign_argv ident b),
             PrintExc ''Error during codesign: ''
               (CalledProcessError (sign_argv ident b) (exit_code (tool e (sign_argv ident b)))),
             Rmtree (mkdtemp_2nd e), Rmtree (mkdtemp_1st e)], SysExit 1)"
    using assms(4) by (simp add: sign_dmg_signing [OF assms(1-3)])
  have "\<not> creates_image (trace (sign_dmg e a))"
    by (simp add: run trace_def creates_image_def setup_events_def attach_argv_def
        detach_argv_def sign_argv_def)
  then show ?thesis
    by (simp add: run trace_def result_def removes_def)
qed

theorem signing_failure_cleans_up_witness:
  "sign_dmg (demo_env [''gpt4all.app''] rc_sign_fails) (demo_args None (Some ''Developer ID'') False) =
     ([Mkdtemp ''/tmp/tmpmnt'',
       Run [''hdiutil'', ''attach'', ''/path/to/input.dmg'', ''-mountpoint'', ''/tmp/tmpmnt''],
       Mkdtemp ''/tmp/tmpwork'',
       Copytree ''/tmp/tmpmnt'' ''/tmp/tmpwork/contents'',
       Run [''hdiutil'', ''detach'', ''/tmp/tmpmnt''],
       Listdir ''/tmp/tmpwork/contents'',
       Run [''codesign'', ''--deep'', ''--force'', ''--verbose'', ''--options'', ''runtime'',
            ''--timestamp'', ''--sign'', ''Developer ID'', ''/tmp/tmpwork/contents/gpt4all.app''],
       PrintExc ''Error during codesign: ''
         (CalledProcessError
            [''codesign'', ''--deep'', ''--force'', ''--verbose'', ''--options'', ''runtime'',
             ''--timestamp'', ''--sign'', ''Developer ID'', ''/tmp/tmpwork/contents/gpt4all.app''] 1),
       Rmtree ''/tmp/tmpwork'', Rmtree ''/tmp/tmpmnt''], SysExit 1)"
  using signing_failure_cleans_up
    [of "demo_args None (Some ''Developer ID'') False" "''Developer ID''"
        "demo_env [''gpt4all.app''] rc_sign_fails" "''/tmp/tmpwork/contents/gpt4all.app''"]
  by (simp add: demo_args_def demo_env_def rc_sign_fails_def py_or_def path_join_def
      join_step_def startswith_def endswith_def setup_events_def attach_argv_def detach_argv_def
      sign_argv_def)

text \<open>
  C6. If an identity is given and no entry of the extracted contents directory has a
  name ending in \<open>.app\<close>, the program prints \<open>No .app bundle found in the DMG.\<close> and
  exits with status 1.
\<close>

theorem no_bundle_error:
  assumes "truthy (sha1_hash a) \<or> truthy (signing_identity a)"
    and "\<forall>item \<in> set (listdir e (path_join (mkdtemp_2nd e) [''contents''])).
           \<not> endswith item ''.app''"
  shows "sign_dmg e a =
           (setup_events e a @ [Print ''No .app bundle found in the DMG.''], SysExit 1)
         \<and> exit_status (result (sign_dmg e a)) \<noteq> 0"
proof -
  have "find (\<lambda>item. endswith item ''.app'')
          (listdir e (path_join (mkdtemp_2nd e) [''contents''])) = None"
    using assms(2) by (simp add: find_None_iff)
  then have none: "find_app_bundle (mkdtemp_2nd e)
      (listdir e (path_join (mkdtemp_2nd e) [''contents''])) = None"
    by (simp add: find_app_bundle_find)
  have "sign_dmg e a = mount_and_locate e a"
    using assms(1) by (auto simp: sign_dmg_def)
  then have "sign_dmg e a =
      (setup_events e a @ [Print ''No .app bundle found in the DMG.''], SysExit 1)"
    by (simp add: mount_and_locate_run none emit_def)
  then show ?thesis by (simp add: result_def)
qed

theorem no_bundle_error_witness:
  "sign_dmg (demo_env [''README.txt'', ''.background'', ''app''] (\<lambda>argv. 0))
     (demo_args (Some ''0123456789ABCDEF0123456789ABCDEF01234567'') None True) =
     ([Mkdtemp ''/tmp/tmpmnt'',
       Run [''hdiutil'', ''attach'', ''/path/to/input.dmg'', ''-mountpoint'', ''/tmp/tmpmnt''],
       Mkdtemp ''/tmp/tmpwork'',
       Copytree ''/tmp/tmpmnt'' ''/tmp/tmpwork/contents'',
       Run [''hdiutil'', ''detach'', ''/tmp/tmpmnt''],
       Listdir ''/tmp/tmpwork/contents'',
       Print ''No .app bundle found in the DMG.''], SysExit 1)"
  using no_bundle_error
    [of "demo_args (Some ''0123456789ABCDEF0123456789ABCDEF01234567'') None True"
        "demo_env [''README.txt'', ''.background'', ''app''] (\<lambda>argv. 0)"]
  by (simp add: demo_args_def demo_env_def path_join_def
      join_step_def startswith_def endswith_def setup_events_def attach_argv_def detach_argv_def)

text \<open>
  C3. In every run with the verify flag set that reaches the signature verification
  and in which \<open>codesign --verify\<close> exits zero, the text match is a \<open>str\<close> pattern
  against captured \<open>bytes\<close> and raises: the run ends there with an uncaught exception
  (non-zero status), \<open>spctl\<close> and \<open>hdiutil create\<close> are never invoked, and neither
  temporary directory is removed.
\<close>

theorem verify_always_raises:
  assumes "py_or (sha1_hash a) (signing_identity a) = Some ident" and "ident \<noteq> []"
    and "find_app_bundle (mkdtemp_2nd e)
           (listdir e (path_join (mkdtemp_2nd e) [''contents''])) = Some b"
    and "exit_code (tool e (sign_argv ident b)) = 0"
    and "verify a"
    and "exit_code (tool e (verify_argv b)) = 0"
  shows "sign_dmg e a =
           (setup_events e a @ [Run (sign_argv ident b), Run (verify_argv b)],
            Uncaught (if re_compiles e (b @ '': valid'') then TypeError else ReError))
         \<and> exit_status (result (sign_dmg e a)) \<noteq> 0
         \<and> \<not> assesses_policy (trace (sign_dmg e a))
         \<and> \<not> creates_image (trace (sign_dmg e a))
         \<and> \<not> removes (trace (sign_dmg e a)) (mkdtemp_2nd e)
         \<and> \<not> removes (trace (sign_dmg e a)) (mkdtemp_1st e)"
proof -
  have run: "sign_dmg e a =
           (setup_events e a @ [Run (sign_argv ident b), Run (verify_argv b)],
            Uncaught (if re_compiles e (b @ '': valid'') then TypeError else ReError))"
    using assms(4-6) by (simp add: sign_dmg_signing [OF assms(1-3)] validate_run emit_def)
  have calls: "tool_calls (trace (sign_dmg e a)) =
      [attach_argv (input_dmg a) (mkdtemp_1st e), detach_argv (mkdtemp_1st e),
       sign_argv ident b, verify_argv b]"
    by (simp add: run trace_def setup_events_def)
  have "\<not> assesses_policy (trace (sign_dmg e a))"
    by (simp add: assesses_policy_def calls attach_argv_def detach_argv_def sign_argv_def
        verify_argv_def)
  moreover have "\<not> creates_image (trace (sign_dmg e a))"
    by (simp add: creates_image_def calls attach_argv_def detach_argv_def sign_argv_def
        verify_argv_def)
  moreover have "\<not> removes (trace (sign_dmg e a)) d" for d
    by (simp add: removes_def run trace_def setup_events_def)
  ultimately show ?thesis
    by (simp add: run result_def)
qed

theorem verify_always_raises_witness:
  "sign_dmg (demo_env [''gpt4all.app''] (\<lambda>argv. 0)) (demo_args None (Some ''Developer ID'') True) =
     ([Mkdtemp ''/tmp/tmpmnt'',
       Run [''hdiutil'', ''attach'', ''/path/to/input.dmg'', ''-mountpoint'', ''/tmp/tmpmnt''],
       Mkdtemp ''/tmp/tmpwork'',
       Copytree ''/tmp/tmpmnt'' ''/tmp/tmpwork/contents'',
       Run [''hdiutil'', ''detach'', ''/tmp/tmpmnt''],
       Listdir ''/tmp/tmpwork/contents'',
       Run [''codesign'', ''--deep'', ''--force'', ''--verbose'', ''--options'', ''runtime'',
            ''--timestamp'', ''--sign'', ''Developer ID'', ''/tmp/tmpwork/contents/gpt4all.app''],
       Run [''codesign'', ''--deep'', ''--verify'', ''--verbose=2'', ''--strict'',
            ''/tmp/tmpwork/contents/gpt4all.app'']],
      Uncaught TypeError)"
  using verify_always_raises
    [of "demo_args None (Some ''Developer ID'') True" "''Developer ID''"
        "demo_env [''gpt4all.app''] (\<lambda>argv. 0)" "''/tmp/tmpwork/contents/gpt4all.app''"]
  by (simp add: demo_args_def demo_env_def py_or_def path_join_def
      join_step_def startswith_def endswith_def setup_events_def attach_argv_def detach_argv_def
      sign_argv_def verify_argv_def)

text \<open>
  C7. When a (non-empty) fingerprint is given, \<open>sha1_hash or signing_identity\<close> is the
  fingerprint whatever the common name is, the signing tool is invoked with it after
  \<open>--sign\<close>, and no signing invocation of the run carries any other identity.
\<close>

theorem fingerprint_takes_precedence:
  assumes "sha1_hash a = Some h" and "h \<noteq> []"
    and "find_app_bundle (mkdtemp_2nd e)
           (listdir e (path_join (mkdtemp_2nd e) [''contents''])) = Some b"
  shows "py_or (sha1_hash a) (signing_identity a) = Some h
         \<and> sign_argv h b \<in> set (tool_calls (trace (sign_dmg e a)))
         \<and> (\<forall>i b'. sign_argv i b' \<in> set (tool_calls (trace (sign_dmg e a))) \<longrightarrow> i = h)"
proof -
  have ident: "py_or (sha1_hash a) (signing_identity a) = Some h"
    using assms(1,2) by (simp add: py_or_def)
  show ?thesis
    by (simp add: ident sign_dmg_tool_calls [OF ident assms(2,3)] sign_argv_inject
        sign_argv_distinct)
qed

theorem fingerprint_takes_precedence_witness:
  "tool_calls (trace (sign_dmg (demo_env [''gpt4all.app''] (\<lambda>argv. 0))
      (demo_args (Some ''0123456789ABCDEF0123456789ABCDEF01234567'') (Some ''Developer ID'') False))) ! 2 =
     [''codesign'', ''--deep'', ''--force'', ''--verbose'', ''--options'', ''runtime'',
      ''--timestamp'', ''--sign'', ''0123456789ABCDEF0123456789ABCDEF01234567'',
      ''/tmp/tmpwork/contents/gpt4all.app'']
   \<and> sign_argv ''0123456789ABCDEF0123456789ABCDEF01234567'' ''/tmp/tmpwork/contents/gpt4all.app''
       \<in> set (tool_calls (trace (sign_dmg (demo_env [''gpt4all.app''] (\<lambda>argv. 0))
      (demo_args (Some ''0123456789ABCDEF0123456789ABCDEF01234567'') (Some ''Developer ID'') False))))"
  using fingerprint_takes_precedence
    [of "demo_args (Some ''0123456789ABCDEF0123456789ABCDEF01234567'') (Some ''Developer ID'') False"
        "''0123456789ABCDEF0123456789ABCDEF01234567''"
        "demo_env [''gpt4all.app''] (\<lambda>argv. 0)" "''/tmp/tmpwork/contents/gpt4all.app''"]
    sign_dmg_tool_calls
    [of "demo_args (Some ''0123456789ABCDEF0123456789ABCDEF01234567'') (Some ''Developer ID'') False"
        "''0123456789ABCDEF0123456789ABCDEF01234567''"
        "demo_env [''gpt4all.app''] (\<lambda>argv. 0)" "''/tmp/tmpwork/contents/gpt4all.app''"]
  by (simp add: demo_args_def demo_env_def py_or_def path_join_def
      join_step_def startswith_def endswith_def sign_argv_def)

text \<open>
  C9. In a run that reaches repackaging (identity given, bundle found, signing
  succeeded, no verification requested) the image is built by one \<open>hdiutil create\<close>
  invocation whose source folder is the working directory's \<open>contents\<close>, whose format
  is \<open>UDZO\<close> (the compressed, read-only image format), which carries \<open>-ov\<close> (overwrite
  an existing file), whose last argument is the output path, and whose volume name is
  \<open>splitext(basename(input_dmg))[0]\<close>. For an input path made of a directory prefix,
  a stem with a character other than a dot, and one extension, that volume name is
  the stem.
\<close>

theorem repackage_command:
  assumes "py_or (sha1_hash a) (signing_identity a) = Some ident" and "ident \<noteq> []"
    and "find_app_bundle (mkdtemp_2nd e)
           (listdir e (path_join (mkdtemp_2nd e) [''contents''])) = Some b"
    and "exit_code (tool e (sign_argv ident b)) = 0"
    and "\<not> verify a"
  shows "sign_dmg e a =
           (setup_events e a @
            [Run (sign_argv ident b),
             Run [''hdiutil'', ''create'',
                  ''-volname'', fst (splitext (basename (input_dmg a))),
                  ''-srcfolder'', path_join (mkdtemp_2nd e) [''contents''],
                  ''-ov'',
                  ''-format'', ''UDZO'',
                  output_dmg a],
             Rmtree (mkdtemp_2nd e), Rmtree (mkdtemp_1st e)], Returned)
         \<and> (\<forall>pre stem ext.
               input_dmg a = pre @ stem @ CHR ''.'' # ext
               \<and> (pre = [] \<or> last pre = CHR ''/'')
               \<and> CHR ''/'' \<notin> set stem \<and> CHR ''/'' \<notin> set ext \<and> CHR ''.'' \<notin> set ext
               \<and> has_non_dot stem
               \<longrightarrow> fst (splitext (basename (input_dmg a))) = stem)"
proof -
  have "sign_dmg e a =
           (setup_events e a @
            [Run (sign_argv ident b),
             Run (create_argv (input_dmg a) (mkdtemp_2nd e) (output_dmg a)),
             Rmtree (mkdtemp_2nd e), Rmtree (mkdtemp_1st e)], Returned)"
    using assms(4,5) by (simp add: sign_dmg_signing [OF assms(1-3)] validate_run emit_def)
  then show ?thesis
    by (auto simp: create_argv_def intro: volname_is_stem)
qed

theorem repackage_command_witness:
  "sign_dmg (demo_env [''.DS_Store'', ''gpt4all.app''] (\<lambda>argv. 0))
      (demo_args None (Some ''Developer ID'') False) =
     ([Mkdtemp ''/tmp/tmpmnt'',
       Run [''hdiutil'', ''attach'', ''/path/to/input.dmg'', ''-mountpoint'', ''/tmp/tmpmnt''],
       Mkdtemp ''/tmp/tmpwork'',
       Copytree ''/tmp/tmpmnt'' ''/tmp/tmpwork/contents'',
       Run [''hdiutil'', ''detach'', ''/tmp/tmpmnt''],
       Listdir ''/tmp/tmpwork/contents'',
       Run [''codesign'', ''--deep'', ''--force'', ''--verbose'', ''--options'', ''runtime'',
            ''--timestamp'', ''--sign'', ''Developer ID'', ''/tmp/tmpwork/contents/gpt4all.app''],
       Run [''hdiutil'', ''create'', ''-volname'', ''input'',
            ''-srcfolder'', ''/tmp/tmpwork/contents'', ''-ov'', ''-format'', ''UDZO'',
            ''/path/to/output.dmg''],
       Rmtree ''/tmp/tmpwork'', Rmtree ''/tmp/tmpmnt''], Returned)"
proof -
  let ?a = "demo_args None (Some ''Developer ID'') False"
  let ?e = "demo_env [''.DS_Store'', ''gpt4all.app''] (\<lambda>argv. 0)"
  have h1: "py_or (sha1_hash ?a) (signing_identity ?a) = Some ''Developer ID''"
    by (simp add: demo_args_def py_or_def)
  have h3: "find_app_bundle (mkdtemp_2nd ?e)
           (listdir ?e (path_join (mkdtemp_2nd ?e) [''contents''])) =
           Some ''/tmp/tmpwork/contents/gpt4all.app''"
    by (simp add: demo_env_def path_join_def join_step_def startswith_def endswith_def)
  have h4: "exit_code (tool ?e (sign_argv ''Developer ID'' ''/tmp/tmpwork/contents/gpt4all.app'')) = 0"
    by (simp add: demo_env_def)
  have h5: "\<not> verify ?a" by (simp add: demo_args_def)
  have stem: "input_dmg ?a = ''/path/to/'' @ ''input'' @ CHR ''.'' # ''dmg''"
    by (simp add: demo_args_def)
  from repackage_command [OF h1 _ h3 h4 h5]
  have run: "sign_dmg ?e ?a =
           (setup_events ?e ?a @
            [Run (sign_argv ''Developer ID'' ''/tmp/tmpwork/contents/gpt4all.app''),
             Run [''hdiutil'', ''create'',
                  ''-volname'', fst (splitext (basename (input_dmg ?a))),
                  ''-srcfolder'', path_join (mkdtemp_2nd ?e) [''contents''],
                  ''-ov'',
                  ''-format'', ''UDZO'',
                  output_dmg ?a],
             Rmtree (mkdtemp_2nd ?e), Rmtree (mkdtemp_1st ?e)], Returned)"
    and vol: "\<And>pre stem ext. input_dmg ?a = pre @ stem @ CHR ''.'' # ext
               \<and> (pre = [] \<or> last pre = CHR ''/'')
               \<and> CHR ''/'' \<notin> set stem \<and> CHR ''/'' \<notin> set ext \<and> CHR ''.'' \<notin> set ext
               \<and> has_non_dot stem
               \<Longrightarrow> fst (splitext (basename (input_dmg ?a))) = stem"
    by simp_all
  have "fst (splitext (basename (input_dmg ?a))) = ''input''"
    by (rule vol [of "''/path/to/''" "''input''" "''dmg''"]) (simp add: stem)
  with run show ?thesis
    by (simp add: demo_args_def demo_env_def path_join_def join_step_def startswith_def
        endswith_def setup_events_def attach_argv_def detach_argv_def sign_argv_def)
qed

text \<open>
  C8. The only directory the run lists is the extracted-contents directory (its
  immediate children). If the listing is \<open>xs @ item # ys\<close>, no name in \<open>xs\<close> ends
  in \<open>.app\<close> and \<open>item\<close> does, then the bundle selected is \<open>item\<close> inside the contents
  directory, the signing tool is invoked on it, and no signing invocation of the run
  names any other bundle, whatever \<open>ys\<close> holds.
\<close>

theorem first_bundle_is_signed:
  assumes "listdir e (path_join (mkdtemp_2nd e) [''contents'']) = xs @ item # ys"
    and "\<forall>x \<in> set xs. \<not> endswith x ''.app''"
    and "endswith item ''.app''"
    and "py_or (sha1_hash a) (signing_identity a) = Some ident" and "ident \<noteq> []"
  shows "find_app_bundle (mkdtemp_2nd e) (xs @ item # ys) =
           Some (path_join (mkdtemp_2nd e) [''contents'', item])
         \<and> sign_argv ident (path_join (mkdtemp_2nd e) [''contents'', item])
             \<in> set (tool_calls (trace (sign_dmg e a)))
         \<and> (\<forall>i b. sign_argv i b \<in> set (tool_calls (trace (sign_dmg e a)))
               \<longrightarrow> b = path_join (mkdtemp_2nd e) [''contents'', item])
         \<and> (\<forall>p. Listdir p \<in> set (trace (sign_dmg e a))
               \<longrightarrow> p = path_join (mkdtemp_2nd e) [''contents''])"
proof -
  let ?b = "path_join (mkdtemp_2nd e) [''contents'', item]"
  have first: "find_app_bundle (mkdtemp_2nd e) (xs @ item # ys) = Some ?b"
    using assms(2,3) by (rule find_app_bundle_first)
  then have found: "find_app_bundle (mkdtemp_2nd e)
      (listdir e (path_join (mkdtemp_2nd e) [''contents''])) = Some ?b"
    by (simp add: assms(1))
  have calls: "sign_argv ident ?b \<in> set (tool_calls (trace (sign_dmg e a)))
      \<and> (\<forall>i b. sign_argv i b \<in> set (tool_calls (trace (sign_dmg e a))) \<longrightarrow> b = ?b)"
    by (simp add: sign_dmg_tool_calls [OF assms(4,5) found] sign_argv_inject sign_argv_distinct)
  have "\<forall>p. Listdir p \<in> set (trace (sign_dmg e a))
      \<longrightarrow> p = path_join (mkdtemp_2nd e) [''contents'']"
    using sign_dmg_listdir_once [OF assms(4,5) found] by blast
  with first calls show ?thesis by blast
qed

theorem first_bundle_is_signed_witness:
  "tool_calls (trace (sign_dmg
      (demo_env [''README.txt'', ''gpt4all.app'', ''Extras'', ''maintenancetool.app''] (\<lambda>argv. 0))
      (demo_args None (Some ''Developer ID'') False))) =
     [[''hdiutil'', ''attach'', ''/path/to/input.dmg'', ''-mountpoint'', ''/tmp/tmpmnt''],
      [''hdiutil'', ''detach'', ''/tmp/tmpmnt''],
      [''codesign'', ''--deep'', ''--force'', ''--verbose'', ''--options'', ''runtime'',
       ''--timestamp'', ''--sign'', ''Developer ID'', ''/tmp/tmpwork/contents/gpt4all.app''],
      [''hdiutil'', ''create'', ''-volname'', ''input'',
       ''-srcfolder'', ''/tmp/tmpwork/contents'', ''-ov'', ''-format'', ''UDZO'',
       ''/path/to/output.dmg'']]"
proof -
  let ?a = "demo_args None (Some ''Developer ID'') False"
  let ?e = "demo_env [''README.txt'', ''gpt4all.app'', ''Extras'', ''maintenancetool.app'']
              (\<lambda>argv. 0)"
  have h1: "listdir ?e (path_join (mkdtemp_2nd ?e) [''contents'']) =
      [''README.txt''] @ ''gpt4all.app'' # [''Extras'', ''maintenancetool.app'']"
    by (simp add: demo_env_def path_join_def join_step_def startswith_def endswith_def)
  have h2: "\<forall>x \<in> set [''README.txt'']. \<not> endswith x ''.app''"
    by (simp add: endswith_def)
  have h3: "endswith ''gpt4all.app'' ''.app''"
    by (simp add: endswith_def)
  have h4: "py_or (sha1_hash ?a) (signing_identity ?a) = Some ''Developer ID''"
    by (simp add: demo_args_def py_or_def)
  have ne: "''Developer ID'' \<noteq> []" by simp
  have found: "find_app_bundle (mkdtemp_2nd ?e)
      (listdir ?e (path_join (mkdtemp_2nd ?e) [''contents''])) =
      Some (path_join (mkdtemp_2nd ?e) [''contents'', ''gpt4all.app''])"
    using first_bundle_is_signed [OF h1 h2 h3 h4 ne] by (simp add: h1)
  have vol: "fst (splitext (basename ''/path/to/input.dmg'')) = ''input''"
    by (rule volname_is_stem [of _ "''/path/to/''" "''input''" "''dmg''"]) simp_all
  show ?thesis
    unfolding sign_dmg_tool_calls [OF h4 ne found]
    by (simp add: vol demo_args_def demo_env_def path_join_def join_step_def startswith_def
        endswith_def attach_argv_def detach_argv_def sign_argv_def create_argv_def)
qed

text \<open>
  C10. The exit statuses of the three \<open>hdiutil\<close> invocations are not checked: replacing
  what the environment answers to every \<open>hdiutil\<close> command line by anything at all
  leaves the whole run (effects and outcome) unchanged. After attach the run goes on
  to copy, detach and list, and after create it goes on to remove both directories
  and return, whatever the statuses were.
\<close>

theorem hdiutil_status_unchecked:
  assumes "\<forall>argv. take 1 argv \<noteq> [''hdiutil''] \<longrightarrow> t argv = tool e argv"
  shows "sign_dmg (e\<lparr>tool := t\<rparr>) a = sign_dmg e a
         \<and> (truthy (sha1_hash a) \<or> truthy (signing_identity a) \<longrightarrow>
              take 6 (trace (sign_dmg (e\<lparr>tool := t\<rparr>) a)) = setup_events e a)
         \<and> repackage (e\<lparr>tool := t\<rparr>) a td mp =
              ([Run (create_argv (input_dmg a) td (output_dmg a)), Rmtree td, Rmtree mp],
               Returned)"
proof -
  have same: "sign_dmg (e\<lparr>tool := t\<rparr>) a = sign_dmg e a"
  proof (cases "\<not> truthy (signing_identity a) \<and> \<not> truthy (sha1_hash a)")
    case True
    then show ?thesis by (simp add: sign_dmg_def)
  next
    case False
    then obtain ident where ident: "py_or (sha1_hash a) (signing_identity a) = Some ident"
      and ne: "ident \<noteq> []"
      by (cases "sha1_hash a"; cases "signing_identity a"; cases "truthy (sha1_hash a)")
        (auto simp: py_or_def)
    let ?found = "find_app_bundle (mkdtemp_2nd e)
        (listdir e (path_join (mkdtemp_2nd e) [''contents'']))"
    show ?thesis
    proof (cases ?found)
      case None
      then show ?thesis
        by (simp add: sign_dmg_with_identity [OF ident ne] mount_and_locate_run setup_events_def)
    next
      case (Some b)
      have same_sign: "t (sign_argv ident b) = tool e (sign_argv ident b)"
        using assms by (simp add: sign_argv_def)
      have same_verify: "t (verify_argv b) = tool e (verify_argv b)"
        using assms by (simp add: verify_argv_def)
      have found': "find_app_bundle (mkdtemp_2nd (e\<lparr>tool := t\<rparr>))
          (listdir (e\<lparr>tool := t\<rparr>)
             (path_join (mkdtemp_2nd (e\<lparr>tool := t\<rparr>)) [''contents''])) = Some b"
        using Some by simp
      show ?thesis
        unfolding sign_dmg_signing [OF ident ne Some] sign_dmg_signing [OF ident ne found']
        by (simp add: validate_run same_sign same_verify setup_events_def)
    qed
  qed
  have "truthy (sha1_hash a) \<or> truthy (signing_identity a) \<Longrightarrow>
      take 6 (trace (sign_dmg (e\<lparr>tool := t\<rparr>) a)) = setup_events e a"
    unfolding same by (rule sign_dmg_starts_with_setup)
  with same show ?thesis
    by (simp add: repackage_run)
qed

theorem hdiutil_status_unchecked_witness:
  "sign_dmg (demo_env [''gpt4all.app''] hdiutil_fails) (demo_args None (Some ''Developer ID'') False) =
     ([Mkdtemp ''/tmp/tmpmnt'',
       Run [''hdiutil'', ''attach'', ''/path/to/input.dmg'', ''-mountpoint'', ''/tmp/tmpmnt''],
       Mkdtemp ''/tmp/tmpwork'',
       Copytree ''/tmp/tmpmnt'' ''/tmp/tmpwork/contents'',
       Run [''hdiutil'', ''detach'', ''/tmp/tmpmnt''],
       Listdir ''/tmp/tmpwork/contents'',
       Run [''codesign'', ''--deep'', ''--force'', ''--verbose'', ''--options'', ''runtime'',
            ''--timestamp'', ''--sign'', ''Developer ID'', ''/tmp/tmpwork/contents/gpt4all.app''],
       Run (create_argv ''/path/to/input.dmg'' ''/tmp/tmpwork'' ''/path/to/output.dmg''),
       Rmtree ''/tmp/tmpwork'', Rmtree ''/tmp/tmpmnt''], Returned)
   \<and> exit_code (tool (demo_env [''gpt4all.app''] hdiutil_fails)
        (attach_argv ''/path/to/input.dmg'' ''/tmp/tmpmnt'')) = 1
   \<and> exit_code (tool (demo_env [''gpt4all.app''] hdiutil_fails) (detach_argv ''/tmp/tmpmnt'')) = 1
   \<and> exit_code (tool (demo_env [''gpt4all.app''] hdiutil_fails)
        (create_argv ''/path/to/input.dmg'' ''/tmp/tmpwork'' ''/path/to/output.dmg'')) = 1"
proof -
  let ?a = "demo_args None (Some ''Developer ID'') False"
  let ?e = "demo_env [''gpt4all.app''] (\<lambda>argv. 0)"
  let ?t = "\<lambda>argv. \<lparr>exit_code = hdiutil_fails argv, stdout_bytes = []\<rparr>"
  have env: "demo_env [''gpt4all.app''] hdiutil_fails = ?e\<lparr>tool := ?t\<rparr>"
    by (simp add: demo_env_def)
  have hyp: "\<forall>argv. take 1 argv \<noteq> [''hdiutil''] \<longrightarrow> ?t argv = tool ?e argv"
    by (simp add: demo_env_def hdiutil_fails_def)
  have ident: "py_or (sha1_hash ?a) (signing_identity ?a) = Some ''Developer ID''"
    by (simp add: demo_args_def py_or_def)
  have ne: "''Developer ID'' \<noteq> []" by simp
  have found: "find_app_bundle (mkdtemp_2nd ?e)
           (listdir ?e (path_join (mkdtemp_2nd ?e) [''contents''])) =
           Some ''/tmp/tmpwork/contents/gpt4all.app''"
    by (simp add: demo_env_def path_join_def join_step_def startswith_def endswith_def)
  have "sign_dmg (demo_env [''gpt4all.app''] hdiutil_fails) ?a = sign_dmg ?e ?a"
    unfolding env using hdiutil_status_unchecked [OF hyp] by blast
  also have "\<dots> = ([Mkdtemp ''/tmp/tmpmnt'',
       Run [''hdiutil'', ''attach'', ''/path/to/input.dmg'', ''-mountpoint'', ''/tmp/tmpmnt''],
       Mkdtemp ''/tmp/tmpwork'',
       Copytree ''/tmp/tmpmnt'' ''/tmp/tmpwork/contents'',
       Run [''hdiutil'', ''detach'', ''/tmp/tmpmnt''],
       Listdir ''/tmp/tmpwork/contents'',
       Run [''codesign'', ''--deep'', ''--force'', ''--verbose'', ''--options'', ''runtime'',
            ''--timestamp'', ''--sign'', ''Developer ID'', ''/tmp/tmpwork/contents/gpt4all.app''],
       Run (create_argv ''/path/to/input.dmg'' ''/tmp/tmpwork'' ''/path/to/output.dmg''),
       Rmtree ''/tmp/tmpwork'', Rmtree ''/tmp/tmpmnt''], Returned)"
    unfolding sign_dmg_signing [OF ident ne found]
    by (simp add: validate_run emit_def demo_args_def demo_env_def path_join_def join_step_def
        startswith_def endswith_def setup_events_def attach_argv_def detach_argv_def sign_argv_def)
  finally show ?thesis
    by (simp add: demo_env_def hdiutil_fails_def attach_argv_def detach_argv_def create_argv_def)
qed

text \<open>
  C1. Both temporary directories are removed on every exit path. The code does not
  do this when no bundle is found: with an identity given and a disk image whose top
  level holds \<open>README.txt\<close> and \<open>Applications\<close> only, both directories are created, the
  run prints the message and exits with status 1, and neither directory is removed.
\<close>

theorem no_bundle_leaves_directories:
  "sign_dmg (demo_env [''README.txt'', ''Applications''] (\<lambda>argv. 0))
      (demo_args None (Some ''Developer ID'') False) =
     ([Mkdtemp ''/tmp/tmpmnt'',
       Run [''hdiutil'', ''attach'', ''/path/to/input.dmg'', ''-mountpoint'', ''/tmp/tmpmnt''],
       Mkdtemp ''/tmp/tmpwork'',
       Copytree ''/tmp/tmpmnt'' ''/tmp/tmpwork/contents'',
       Run [''hdiutil'', ''detach'', ''/tmp/tmpmnt''],
       Listdir ''/tmp/tmpwork/contents'',
       Print ''No .app bundle found in the DMG.''], SysExit 1)
   \<and> \<not> removes (trace (sign_dmg (demo_env [''README.txt'', ''Applications''] (\<lambda>argv. 0))
          (demo_args None (Some ''Developer ID'') False))) ''/tmp/tmpmnt''
   \<and> \<not> removes (trace (sign_dmg (demo_env [''README.txt'', ''Applications''] (\<lambda>argv. 0))
          (demo_args None (Some ''Developer ID'') False))) ''/tmp/tmpwork''"
proof -
  let ?a = "demo_args None (Some ''Developer ID'') False"
  let ?e = "demo_env [''README.txt'', ''Applications''] (\<lambda>argv. 0)"
  have ident: "py_or (sha1_hash ?a) (signing_identity ?a) = Some ''Developer ID''"
    by (simp add: demo_args_def py_or_def)
  have ne: "''Developer ID'' \<noteq> []" by simp
  have none: "find_app_bundle (mkdtemp_2nd ?e)
           (listdir ?e (path_join (mkdtemp_2nd ?e) [''contents''])) = None"
    by (simp add: demo_env_def path_join_def join_step_def startswith_def endswith_def)
  have run: "sign_dmg ?e ?a = ([Mkdtemp ''/tmp/tmpmnt'',
       Run [''hdiutil'', ''attach'', ''/path/to/input.dmg'', ''-mountpoint'', ''/tmp/tmpmnt''],
       Mkdtemp ''/tmp/tmpwork'',
       Copytree ''/tmp/tmpmnt'' ''/tmp/tmpwork/contents'',
       Run [''hdiutil'', ''detach'', ''/tmp/tmpmnt''],
       Listdir ''/tmp/tmpwork/contents'',
       Print ''No .app bundle found in the DMG.''], SysExit 1)"
    unfolding sign_dmg_with_identity [OF ident ne] mount_and_locate_run none
    by (simp add: emit_def demo_args_def demo_env_def path_join_def join_step_def
        startswith_def endswith_def setup_events_def attach_argv_def detach_argv_def)
  show ?thesis
    unfolding run by (simp add: removes_def trace_def)
qed

text \<open>
  C2. A verification whose output lacks the \<open>valid\<close> text is reported, both
  directories are removed and the exit status is non-zero, also when the tool itself
  exits zero. The code does not do this: with \<open>--verify\<close> and a \<open>codesign --verify\<close>
  that exits zero (printing nothing on standard output), the text match raises
  \<open>TypeError\<close>, no handler catches it, and neither directory is removed.
\<close>

theorem verify_mismatch_leaves_directories:
  "sign_dmg (demo_env [''Chat.app''] (\<lambda>argv. 0))
      (demo_args (Some ''0123456789ABCDEF0123456789ABCDEF01234567'') None True) =
     ([Mkdtemp ''/tmp/tmpmnt'',
       Run [''hdiutil'', ''attach'', ''/path/to/input.dmg'', ''-mountpoint'', ''/tmp/tmpmnt''],
       Mkdtemp ''/tmp/tmpwork'',
       Copytree ''/tmp/tmpmnt'' ''/tmp/tmpwork/contents'',
       Run [''hdiutil'', ''detach'', ''/tmp/tmpmnt''],
       Listdir ''/tmp/tmpwork/contents'',
       Run [''codesign'', ''--deep'', ''--force'', ''--verbose'', ''--options'', ''runtime'',
            ''--timestamp'', ''--sign'', ''0123456789ABCDEF0123456789ABCDEF01234567'',
            ''/tmp/tmpwork/contents/Chat.app''],
       Run [''codesign'', ''--deep'', ''--verify'', ''--verbose=2'', ''--strict'',
            ''/tmp/tmpwork/contents/Chat.app'']],
      Uncaught TypeError)
   \<and> \<not> removes (trace (sign_dmg (demo_env [''Chat.app''] (\<lambda>argv. 0))
          (demo_args (Some ''0123456789ABCDEF0123456789ABCDEF01234567'') None True))) ''/tmp/tmpmnt''
   \<and> \<not> removes (trace (sign_dmg (demo_env [''Chat.app''] (\<lambda>argv. 0))
          (demo_args (Some ''0123456789ABCDEF0123456789ABCDEF01234567'') None True))) ''/tmp/tmpwork''"
proof -
  let ?a = "demo_args (Some ''0123456789ABCDEF0123456789ABCDEF01234567'') None True"
  let ?e = "demo_env [''Chat.app''] (\<lambda>argv. 0)"
  have ident: "py_or (sha1_hash ?a) (signing_identity ?a) =
      Some ''0123456789ABCDEF0123456789ABCDEF01234567''"
    by (simp add: demo_args_def py_or_def)
  have ne: "''0123456789ABCDEF0123456789ABCDEF01234567'' \<noteq> []" by simp
  have found: "find_app_bundle (mkdtemp_2nd ?e)
           (listdir ?e (path_join (mkdtemp_2nd ?e) [''contents''])) =
           Some ''/tmp/tmpwork/contents/Chat.app''"
    by (simp add: demo_env_def path_join_def join_step_def startswith_def endswith_def)
  have run: "sign_dmg ?e ?a = ([Mkdtemp ''/tmp/tmpmnt'',
       Run [''hdiutil'', ''attach'', ''/path/to/input.dmg'', ''-mountpoint'', ''/tmp/tmpmnt''],
       Mkdtemp ''/tmp/tmpwork'',
       Copytree ''/tmp/tmpmnt'' ''/tmp/tmpwork/contents'',
       Run [''hdiutil'', ''detach'', ''/tmp/tmpmnt''],
       Listdir ''/tmp/tmpwork/contents'',
       Run [''codesign'', ''--deep'', ''--force'', ''--verbose'', ''--options'', ''runtime'',
            ''--timestamp'', ''--sign'', ''0123456789ABCDEF0123456789ABCDEF01234567'',
            ''/tmp/tmpwork/contents/Chat.app''],
       Run [''codesign'', ''--deep'', ''--verify'', ''--verbose=2'', ''--strict'',
            ''/tmp/tmpwork/contents/Chat.app'']],
      Uncaught TypeError)"
    unfolding sign_dmg_signing [OF ident ne found]
    by (simp add: validate_run emit_def demo_args_def demo_env_def path_join_def join_step_def
        startswith_def endswith_def setup_events_def attach_argv_def detach_argv_def sign_argv_def
        verify_argv_def)
  show ?thesis
    unfolding run by (simp add: removes_def trace_def)
qed

end
